theory Spec2Isabelle
  imports Main "HOL-Library.Sublist" "HOL-Library.Char_ord" "HOL-Library.List_Lexorder"
begin

section \<open>Python values, exceptions and string primitives\<close>

text \<open>
  The simulator is Python. A \<^typ>\<open>string\<close> is a sequence of code points below 256.
  Attribute values and table cells are dynamically typed in the source; the two kinds
  that occur are integers and strings.
\<close>

datatype pyval = PInt int | PStr string

text \<open>
  Exceptions are values. \<open>ValueError\<close> carries the message of the \<open>raise\<close>
  statement (the interpreter's own unpacking failure carries the tag \<open>unpack\<close>);
  \<open>TimeoutError\<close> carries the raw client output.
\<close>

datatype error =
    ValueError string
  | TimeoutError string
  | IndexError
  | KeyError string
  | TypeError

definition startswith :: "string \<Rightarrow> string \<Rightarrow> bool" where
  "startswith s sub \<longleftrightarrow> take (length sub) s = sub"

text \<open>\<open>s.find(sub)\<close>: the lowest index at which \<open>sub\<close> occurs in \<open>s\<close>, or \<open>-1\<close>.\<close>

fun str_find :: "string \<Rightarrow> string \<Rightarrow> int" where
  "str_find [] sub = (if sub = [] then 0 else - 1)"
| "str_find (c # cs) sub =
     (if startswith (c # cs) sub then 0
      else (let r = str_find cs sub in if r < 0 then - 1 else r + 1))"

text \<open>The line boundaries of \<open>str.splitlines()\<close> among the code points below 256.\<close>

definition linebreak :: "char \<Rightarrow> bool" where
  "linebreak c \<longleftrightarrow>
     c \<in> set [CHR 0x0A, CHR 0x0B, CHR 0x0C, CHR 0x0D, CHR 0x1C, CHR 0x1D, CHR 0x1E, CHR 0x85]"

fun splitlines_acc :: "string \<Rightarrow> string \<Rightarrow> string list" where
  "splitlines_acc cur [] = (if cur = [] then [] else [cur])"
| "splitlines_acc cur [c] = (if linebreak c then [cur] else [cur @ [c]])"
| "splitlines_acc cur (c # d # cs) =
     (if c = CHR 0x0D \<and> d = CHR 0x0A then cur # splitlines_acc [] cs
      else if linebreak c then cur # splitlines_acc [] (d # cs)
      else splitlines_acc (cur @ [c]) (d # cs))"

definition str_splitlines :: "string \<Rightarrow> string list" where
  "str_splitlines s = splitlines_acc [] s"

text \<open>\<open>s.split(sep)\<close> for a one-character separator: never an empty list.\<close>

fun split_acc :: "char \<Rightarrow> string \<Rightarrow> string \<Rightarrow> string list" where
  "split_acc sep cur [] = [cur]"
| "split_acc sep cur (c # cs) =
     (if c = sep then cur # split_acc sep [] cs else split_acc sep (cur @ [c]) cs)"

definition str_split :: "string \<Rightarrow> char \<Rightarrow> string list" where
  "str_split s sep = split_acc sep [] s"

text \<open>\<open>s.split(sep, maxsplit=1)\<close>: cut at the first separator only.\<close>

definition str_split1 :: "string \<Rightarrow> char \<Rightarrow> string list" where
  "str_split1 s sep =
     (case dropWhile (\<lambda>c. c \<noteq> sep) s of
        [] \<Rightarrow> [s]
      | _ # rest \<Rightarrow> [takeWhile (\<lambda>c. c \<noteq> sep) s, rest])"

text \<open>\<open>s.strip(chars)\<close>: drop the given characters from both ends.\<close>

definition str_strip :: "string \<Rightarrow> char list \<Rightarrow> string" where
  "str_strip s chars =
     rev (dropWhile (\<lambda>c. c \<in> set chars) (rev (dropWhile (\<lambda>c. c \<in> set chars) s)))"

text \<open>The characters \<open>s.strip()\<close> removes: those for which \<open>str.isspace\<close> holds.\<close>

definition whitespace :: "char list" where
  "whitespace = [CHR 0x09, CHR 0x0A, CHR 0x0B, CHR 0x0C, CHR 0x0D, CHR 0x1C, CHR 0x1D,
                 CHR 0x1E, CHR 0x1F, CHR 0x20, CHR 0x85, CHR 0xA0]"

text \<open>The argument of \<open>strip('"\' ')\<close>: double quote, single quote and space.\<close>

definition quotes :: "char list" where
  "quotes = [CHR 0x22, CHR 0x27, CHR 0x20]"


section \<open>The ordered multi-valued dictionary\<close>

text \<open>
  \<open>MultiDict\<close> comes from the \<open>multidict\<close> package: an ordered list of
  (key, value) items. The operations below are the ones the simulator calls, with the
  package's semantics: \<open>d[k] = v\<close> overwrites the first item of key \<open>k\<close> and deletes
  every later item of that key (it appends when the key is absent); \<open>d[k]\<close> and
  \<open>d.get(k)\<close> read the first item; \<open>d.pop(k)\<close> removes the first item only;
  \<open>d.getall(k)\<close> lists every value of the key in order. On a plain \<open>dict\<close>, whose
  keys are unique, they are the dictionary operations.
\<close>

type_synonym 'v multidict = "(string \<times> 'v) list"

fun md_setitem :: "string \<Rightarrow> 'v \<Rightarrow> 'v multidict \<Rightarrow> 'v multidict" where
  "md_setitem k v [] = [(k, v)]"
| "md_setitem k v (item # items) =
     (if fst item = k then (k, v) # filter (\<lambda>i. fst i \<noteq> k) items
      else item # md_setitem k v items)"

definition md_get :: "'v multidict \<Rightarrow> string \<Rightarrow> 'v option" where
  "md_get d k = map_of d k"

definition md_getitem :: "'v multidict \<Rightarrow> string \<Rightarrow> error + 'v" where
  "md_getitem d k = (case map_of d k of None \<Rightarrow> Inl (KeyError k) | Some v \<Rightarrow> Inr v)"

definition md_getall :: "'v multidict \<Rightarrow> string \<Rightarrow> 'v list" where
  "md_getall d k = map snd (filter (\<lambda>i. fst i = k) d)"

fun md_remove_first :: "string \<Rightarrow> 'v multidict \<Rightarrow> 'v multidict" where
  "md_remove_first k [] = []"
| "md_remove_first k (item # items) =
     (if fst item = k then items else item # md_remove_first k items)"

text \<open>\<open>d.pop(k, default)\<close>: the first value of the key (or the default) and the rest.\<close>

definition md_pop :: "string \<Rightarrow> 'v \<Rightarrow> 'v multidict \<Rightarrow> 'v \<times> 'v multidict" where
  "md_pop k dflt d =
     (case map_of d k of None \<Rightarrow> (dflt, d) | Some v \<Rightarrow> (v, md_remove_first k d))"


section \<open>The response parser\<close>

text \<open>
  \<open>RADIUSResponse\<close>: one request/response exchange, rebuilt from the text the external
  client printed. The time stamp is the clock reading at construction, in microseconds.
\<close>

record RADIUSResponse =
  content :: string
  timestamp :: int
  id' :: string
  req_type :: string
  req_length :: string
  req_attrs :: "string multidict"
  rsp_type :: string
  rsp_length :: string
  rsp_attrs :: "string multidict"
  nas_ip :: string
  nas_port :: string
  srv_ip :: string
  srv_port :: string

definition ACCESS_REQUEST :: string where "ACCESS_REQUEST = ''Access-Request''"
definition ACCESS_ACCEPT :: string where "ACCESS_ACCEPT = ''Access-Accept''"
definition ACCESS_REJECT :: string where "ACCESS_REJECT = ''Access-Reject''"
definition ACCOUNTING_REQUEST :: string where "ACCOUNTING_REQUEST = ''Accounting-Request''"
definition ACCOUNTING_RESPONSE :: string where "ACCOUNTING_RESPONSE = ''Accounting-Response''"
definition ACCESS_CHALLENGE :: string where "ACCESS_CHALLENGE = ''Access-Challenge''"

definition RSP_TYPES :: "string list" where
  "RSP_TYPES = [ACCESS_ACCEPT, ACCESS_REJECT, ACCOUNTING_REQUEST, ACCOUNTING_RESPONSE,
                ACCESS_CHALLENGE]"

text \<open>
  The ten-name unpacking of a \<open>Sent\<close> or \<open>Received\<close> line split at single spaces: the
  packet type, the id, the two endpoints and the length are kept, the five template
  words are discarded. Any other number of tokens is a \<open>ValueError\<close>.
\<close>

definition unpack_header :: "string \<Rightarrow> error + (string \<times> string \<times> string \<times> string \<times> string)" where
  "unpack_header line =
     (case str_split line CHR '' '' of
        [w0, typ, w2, ident, w4, a, w6, b, w8, len] \<Rightarrow> Inr (typ, ident, a, b, len)
      | _ \<Rightarrow> Inl (ValueError ''unpack''))"

text \<open>\<open>ip, port = endpoint.split(':')\<close>.\<close>

definition unpack_endpoint :: "string \<Rightarrow> error + (string \<times> string)" where
  "unpack_endpoint e =
     (case str_split e CHR '':'' of
        [ip, port] \<Rightarrow> Inr (ip, port)
      | _ \<Rightarrow> Inl (ValueError ''unpack''))"

text \<open>\<open>key, val = line.strip().split('=', maxsplit=1)\<close>, both stripped of quotes.\<close>

definition unpack_avp :: "string \<Rightarrow> error + (string \<times> string)" where
  "unpack_avp line =
     (case str_split1 (str_strip line whitespace) CHR ''='' of
        [key, val] \<Rightarrow> Inr (str_strip key quotes, str_strip val quotes)
      | _ \<Rightarrow> Inl (ValueError ''unpack''))"

text \<open>
  The loop over the request attributes, \<open>while line := lines.pop(0)\<close>: it pops until an
  empty line or a line with no \<open>=\<close> beyond its first column, and yields that line, the
  lines left and the attributes stored with \<open>req_attrs[key] = val\<close>. Popping from the
  empty list raises \<open>IndexError\<close>.
\<close>

fun req_loop :: "string list \<Rightarrow> string multidict \<Rightarrow>
    error + (string \<times> string list \<times> string multidict)" where
  "req_loop [] attrs = Inl IndexError"
| "req_loop (line # lines) attrs =
     (if line = [] then Inr (line, lines, attrs)
      else if str_find line ''='' \<le> 0 then Inr (line, lines, attrs)
      else (case unpack_avp line of
              Inl e \<Rightarrow> Inl e
            | Inr (key, val) \<Rightarrow> req_loop lines (md_setitem key val attrs)))"

text \<open>The loop over the response attributes, \<open>while len(lines) > 0\<close>.\<close>

fun rsp_loop :: "string list \<Rightarrow> string multidict \<Rightarrow> error + string multidict" where
  "rsp_loop [] attrs = Inr attrs"
| "rsp_loop (line # lines) attrs =
     (case unpack_avp line of
        Inl e \<Rightarrow> Inl e
      | Inr (key, val) \<Rightarrow> rsp_loop lines (md_setitem key val attrs))"

text \<open>\<open>if k in attrs: attrs[k] = len(attrs[k]) * '*'\<close>.\<close>

definition redact_attr :: "string \<Rightarrow> string multidict \<Rightarrow> string multidict" where
  "redact_attr k attrs =
     (case map_of attrs k of
        None \<Rightarrow> attrs
      | Some v \<Rightarrow> md_setitem k (replicate (length v) CHR ''*'') attrs)"

text \<open>
  The body of \<open>RADIUSResponse.__init__\<close> from \<open>content.splitlines()\<close> to the end of
  the response attributes: the fields are assigned from the \<open>Sent\<close> line, the request
  attributes, the \<open>Received\<close> line (which overwrites the id and the endpoints) and the
  response attributes.
\<close>

definition parse_sections :: "int \<Rightarrow> string \<Rightarrow> error + RADIUSResponse" where
  "parse_sections now c =
     (case str_splitlines c of
        [] \<Rightarrow> Inl IndexError
      | line # lines \<Rightarrow>
     (case unpack_header line of Inl e \<Rightarrow> Inl e
      | Inr (rq_type, rq_id, nas, server, rq_length) \<Rightarrow>
     (case unpack_endpoint nas of Inl e \<Rightarrow> Inl e
      | Inr (nas_ip0, nas_port0) \<Rightarrow>
     (case unpack_endpoint server of Inl e \<Rightarrow> Inl e
      | Inr (srv_ip0, srv_port0) \<Rightarrow>
     (case req_loop lines [] of Inl e \<Rightarrow> Inl e
      | Inr (line', lines', rq_attrs) \<Rightarrow>
     (case unpack_header line' of Inl e \<Rightarrow> Inl e
      | Inr (rs_type, rs_id, server', nas', rs_length) \<Rightarrow>
     (case unpack_endpoint nas' of Inl e \<Rightarrow> Inl e
      | Inr (nas_ip1, nas_port1) \<Rightarrow>
     (case unpack_endpoint server' of Inl e \<Rightarrow> Inl e
      | Inr (srv_ip1, srv_port1) \<Rightarrow>
        if rs_type \<notin> set RSP_TYPES
        then Inl (ValueError (''No such RSP_TYPES: '' @ rs_type))
        else (case rsp_loop lines' [] of Inl e \<Rightarrow> Inl e
         | Inr rs_attrs \<Rightarrow>
             Inr \<lparr> content = c, timestamp = now, id' = rs_id,
                   req_type = rq_type, req_length = rq_length, req_attrs = rq_attrs,
                   rsp_type = rs_type, rsp_length = rs_length, rsp_attrs = rs_attrs,
                   nas_ip = nas_ip1, nas_port = nas_port1,
                   srv_ip = srv_ip1, srv_port = srv_port1 \<rparr>)))))))))"

text \<open>
  \<open>RADIUSResponse.__init__(content)\<close>, with the clock reading \<open>now\<close> of
  \<open>time.time()\<close>: the \<open>None\<close> check, the time-out test
  \<open>content.find('Received') <= 0\<close>, the two sections, then the redaction of the
  passwords in the request attributes. The \<open>Reply-Message\<close> lines it prints at the end
  are display only.
\<close>

definition RADIUSResponse_init :: "int \<Rightarrow> string option \<Rightarrow> error + RADIUSResponse" where
  "RADIUSResponse_init now content_opt =
     (case content_opt of
        None \<Rightarrow> Inl (ValueError ''content is None'')
      | Some c \<Rightarrow>
          if str_find c ''Received'' \<le> 0 then Inl (TimeoutError c)
          else (case parse_sections now c of
                  Inl e \<Rightarrow> Inl e
                | Inr r \<Rightarrow>
                    Inr (r\<lparr> req_attrs := redact_attr ''Cleartext-Password''
                                           (redact_attr ''User-Password'' (req_attrs r)) \<rparr>)))"

definition is_accepted :: "RADIUSResponse \<Rightarrow> bool" where
  "is_accepted r \<longleftrightarrow> req_type r = ACCOUNTING_REQUEST \<and> rsp_type r = ACCOUNTING_RESPONSE"

definition guess_access_method :: "RADIUSResponse \<Rightarrow> string" where
  "guess_access_method r =
     (if md_get (req_attrs r) ''Service-Type'' = Some ''Call-Check'' then ''MAB''
      else if md_get (req_attrs r) ''Service-Type'' = Some ''Framed-User'' then ''802.1X''
      else if md_get (req_attrs r) ''NAS-Port-Type'' = Some ''Virtual'' then ''VPN''
      else ''Unknown'')"


section \<open>The simulated network access device\<close>

subsection \<open>Rendering\<close>

text \<open>\<open>str(n)\<close> for an integer: decimal digits, with a minus sign when negative.\<close>

fun str_nat :: "nat \<Rightarrow> string" where
  "str_nat n =
     (if n < 10 then [char_of (48 + n)]
      else str_nat (n div 10) @ [char_of (48 + n mod 10)])"

declare str_nat.simps [simp del]

definition str_int :: "int \<Rightarrow> string" where
  "str_int i = (if i < 0 then CHR ''-'' # str_nat (nat (- i)) else str_nat (nat i))"

fun str_pyval :: "pyval \<Rightarrow> string" where
  "str_pyval (PInt i) = str_int i"
| "str_pyval (PStr s) = s"

fun join :: "string \<Rightarrow> string list \<Rightarrow> string" where
  "join sep [] = []"
| "join sep [x] = x"
| "join sep (x # y # ys) = x @ sep @ join sep (y # ys)"

text \<open>\<open>to_avp_string\<close>: the items as \<open>key='value'\<close>, joined by a comma and a space.\<close>

definition to_avp_string :: "pyval multidict \<Rightarrow> string" where
  "to_avp_string attributes =
     join '', '' (map (\<lambda>(key, val). key @ ''='' @ [CHR 0x27] @ str_pyval val @ [CHR 0x27])
                     attributes)"

subsection \<open>The outside world\<close>

text \<open>
  What the simulator does not decide is an input of the model: \<open>shell\<close> is the
  subprocess that runs a command line (it sees the command lines run before and
  answers with its standard output and standard error), \<open>clock\<close> gives the successive
  readings of the local clock in microseconds, \<open>entropy\<close> the successive draws of the
  random generator. The local time-zone offset is constant.
\<close>

record world =
  shell :: "string list \<Rightarrow> string \<Rightarrow> string \<times> string"
  clock :: "nat \<Rightarrow> int"
  entropy :: "nat \<Rightarrow> nat"

text \<open>\<open>random.randint(a, b)\<close> draws from \<open>a..b\<close>, both ends included.\<close>

definition randint :: "int \<Rightarrow> int \<Rightarrow> nat \<Rightarrow> int" where
  "randint a b r = a + int r mod (b - a + 1)"

text \<open>\<open>random.randrange(start, stop)\<close> draws from \<open>range(start, stop)\<close>.\<close>

definition randrange :: "int \<Rightarrow> int \<Rightarrow> nat \<Rightarrow> error + int" where
  "randrange start stop r =
     (if stop \<le> start then Inl (ValueError ''empty range for randrange()'')
      else Inr (start + int r mod (stop - start)))"

subsection \<open>The device and its session table\<close>

text \<open>
  One row of the \<open>sessions\<close> table. The index \<open>Timestamp\<close> is a time in microseconds;
  the other columns hold whatever the table was loaded or filled with.
\<close>

record session =
  Timestamp :: int
  Method :: pyval
  Status :: pyval
  User_Name :: pyval
  Calling_Station_Id :: pyval
  Framed_IP_Address :: pyval
  Session_Timeout :: pyval
  Acct_Session_Id :: pyval
  Called_Station_Id :: pyval
  NAS_Port_Type :: pyval
  NAS_Port_Id :: pyval
  NAS_Port :: pyval
  NAS_Identifier :: pyval
  Class :: pyval
  Other :: pyval

text \<open>
  The session counter. It starts as the Python integer 0, which is unbounded. When the
  table is loaded from the sessions file it is the maximum of a column: a 64-bit
  integer of the table library, whose increment wraps around, or a string.
\<close>

datatype counter_value = PyInt int | NpInt64 int | PyStr string

definition wrap_int64 :: "int \<Rightarrow> int" where
  "wrap_int64 i = (i + 2 ^ 63) mod 2 ^ 64 - 2 ^ 63"

text \<open>
  The fields of a \<open>RADNAD\<close> object, followed by the record of its run: the attribute
  sets and command lines handed to the external client so far (oldest first), the
  number of clock readings taken and the number of random draws made.
\<close>

record RADNAD =
  name :: string
  server :: string
  secret :: string
  auth_port :: int
  acct_port :: int
  coa_port :: int
  options :: string
  timeout :: int
  retries :: int
  sessions :: "session list"
  counter :: counter_value
  level :: int
  calls :: "(pyval multidict \<times> string) list"
  ticks :: nat
  draws :: nat

definition AUTH_PORT_DEFAULT :: int where "AUTH_PORT_DEFAULT = 1812"
definition ACCT_PORT_DEFAULT :: int where "ACCT_PORT_DEFAULT = 1813"
definition COA_PORT_DEFAULT :: int where "COA_PORT_DEFAULT = 1700"
definition ACCT_START :: string where "ACCT_START = ''Start''"
definition ACCT_STOP :: string where "ACCT_STOP = ''Stop''"
definition RETRIES_DEFAULT :: int where "RETRIES_DEFAULT = 3"
definition RETRIES_MIN :: int where "RETRIES_MIN = 0"
definition RETRIES_MAX :: int where "RETRIES_MAX = 10"
definition SESSION_TIMEOUT :: int where "SESSION_TIMEOUT = 3600"
definition TIMEOUT_DEFAULT :: int where "TIMEOUT_DEFAULT = 5"
definition TIMEOUT_MIN :: int where "TIMEOUT_MIN = 1"
definition TIMEOUT_MAX :: int where "TIMEOUT_MAX = 60"
definition LOG_MIN :: int where "LOG_MIN = 0"
definition LOG_MAX :: int where "LOG_MAX = 5"
definition OPTIONS_DEFAULT :: string where "OPTIONS_DEFAULT = ''-x''"
definition NAS_IDENTIFIER_DEFAULT :: string where "NAS_IDENTIFIER_DEFAULT = ''RADNAD''"

definition NAS_PORT_TYPES :: "string list" where
  "NAS_PORT_TYPES =
     [''Async'', ''Sync'', ''ISDN-Sync'', ''ISDN-Async-V.120'', ''ISDN-Async-V.110'',
      ''Virtual'', ''PIAFS'', ''HDLC-Clear-Channel'', ''X.25'', ''X.75'', ''G.3-Fax'',
      ''SDSL'', ''ADSL-CAP'', ''ADSL-DMT'', ''IDSL'', ''Ethernet'', ''xDSL'', ''Cable'',
      ''Wireless-Other'', ''Wireless-802.11'']"

text \<open>The keys of \<open>RESPONSE_ICONS\<close>.\<close>

definition RESPONSE_ICONS_keys :: "string list" where
  "RESPONSE_ICONS_keys = [ACCESS_ACCEPT, ACCESS_REJECT, ACCOUNTING_RESPONSE, ACCESS_CHALLENGE]"

text \<open>
  \<open>Series.max()\<close> of a column: integers compare as numbers, strings by code points, and
  a column that mixes the two raises \<open>TypeError\<close>.
\<close>

fun max_step :: "error + pyval \<Rightarrow> pyval \<Rightarrow> error + pyval" where
  "max_step (Inl e) v = Inl e"
| "max_step (Inr (PInt a)) (PInt b) = Inr (PInt (max a b))"
| "max_step (Inr (PStr a)) (PStr b) = Inr (PStr (max a b))"
| "max_step (Inr (PInt a)) (PStr b) = Inl TypeError"
| "max_step (Inr (PStr a)) (PInt b) = Inl TypeError"

definition column_max :: "pyval \<Rightarrow> pyval list \<Rightarrow> error + pyval" where
  "column_max v vs = foldl max_step (Inr v) vs"

text \<open>
  \<open>RADNAD.__init__\<close>. \<open>csv\<close> is the table read from the sessions file, or \<open>None\<close> when
  the file does not exist. The checks run in the order of the source; the
  \<open>isinstance\<close> check of \<open>server\<close> cannot fail on a string.
\<close>

definition RADNAD_init :: "string \<Rightarrow> string option \<Rightarrow> string option \<Rightarrow> int \<Rightarrow> int \<Rightarrow> int \<Rightarrow>
    string option \<Rightarrow> int \<Rightarrow> int \<Rightarrow> int \<Rightarrow> session list option \<Rightarrow> error + RADNAD" where
  "RADNAD_init name0 server0 secret0 auth_port0 acct_port0 coa_port0 options0 retries0
      timeout0 level0 csv =
     (if server0 = None \<or> server0 = Some []
      then Inl (ValueError ''Must specify a RADIUS server name or address'')
      else if auth_port0 < 1024 \<or> auth_port0 > 65536
      then Inl (ValueError (''Invalid port number: '' @ str_int auth_port0))
      else if acct_port0 < 1024 \<or> acct_port0 > 65536
      then Inl (ValueError (''Invalid port number: '' @ str_int acct_port0))
      else if secret0 = None \<or> secret0 = Some []
      then Inl (ValueError ''Must specify a secret'')
      else let options1 = (if options0 = None \<or> options0 = Some [] then OPTIONS_DEFAULT
                           else the options0) in
      if str_find options1 ''x'' < 0 then Inl (ValueError ''Option x required'')
      else if retries0 < RETRIES_MIN \<or> retries0 > RETRIES_MAX
      then Inl (ValueError (''Invalid retries: '' @ str_int retries0))
      else if timeout0 < TIMEOUT_MIN \<or> timeout0 > TIMEOUT_MAX
      then Inl (ValueError (''Invalid timeout: '' @ str_int timeout0))
      else if level0 < LOG_MIN \<or> timeout0 > LOG_MAX
      then Inl (ValueError (''Invalid verbosity/log level: '' @ str_int level0))
      else let nad = \<lparr> name = name0, server = the server0, secret = the secret0,
                        auth_port = auth_port0, acct_port = acct_port0, coa_port = coa_port0,
                        options = options1, timeout = timeout0, retries = retries0,
                        sessions = [], counter = PyInt 0, level = level0,
                        calls = [], ticks = 0, draws = 0 \<rparr> in
      (case csv of
         None \<Rightarrow> Inr nad
       | Some [] \<Rightarrow> Inr nad
       | Some (row # rows) \<Rightarrow>
           (case column_max (Acct_Session_Id row) (map Acct_Session_Id rows) of
              Inl e \<Rightarrow> Inl e
            | Inr (PInt m) \<Rightarrow> Inr (nad\<lparr> sessions := row # rows, counter := NpInt64 m \<rparr>)
            | Inr (PStr m) \<Rightarrow> Inr (nad\<lparr> sessions := row # rows, counter := PyStr m \<rparr>))))"


subsection \<open>Generators\<close>

text \<open>
  \<open>generate_session_id\<close>: \<open>self.counter += 1; return self.counter\<close>. Adding 1 to
  a string raises \<open>TypeError\<close>.
\<close>

definition generate_session_id :: "RADNAD \<Rightarrow> RADNAD \<times> (error + pyval)" where
  "generate_session_id nad =
     (case counter nad of
        PyInt n \<Rightarrow> (nad\<lparr> counter := PyInt (n + 1) \<rparr>, Inr (PInt (n + 1)))
      | NpInt64 n \<Rightarrow>
          (nad\<lparr> counter := NpInt64 (wrap_int64 (n + 1)) \<rparr>, Inr (PInt (wrap_int64 (n + 1))))
      | PyStr s \<Rightarrow> (nad, Inl TypeError))"

text \<open>\<open>generate_port(type)\<close>, on the draw \<open>r\<close> of the random generator.\<close>

definition generate_port :: "string \<Rightarrow> nat \<Rightarrow> error + int" where
  "generate_port port_type r =
     (if port_type \<notin> set NAS_PORT_TYPES
      then Inl (ValueError (''Invalid NAS_PORT_TYPE: '' @ port_type))
      else let max0 = 24;
               max1 = (if port_type = ''Ethernet'' then 48 else max0);
               max2 = (if port_type = ''Wireless-802.11'' then 1000 else max1);
               max3 = (if port_type = ''Virtual'' then 10000 else max2)
           in randrange 1 max3 r)"

text \<open>\<open>generate_ip_address\<close>: four draws, rendered as a dotted quad.\<close>

definition generate_ip_address :: "world \<Rightarrow> RADNAD \<Rightarrow> RADNAD \<times> string" where
  "generate_ip_address w nad =
     (let n = draws nad;
          a = randint 1 254 (entropy w n);
          b = randint 1 254 (entropy w (n + 1));
          c = randint 1 254 (entropy w (n + 2));
          d = randint 2 254 (entropy w (n + 3))
      in (nad\<lparr> draws := n + 4 \<rparr>,
          str_int a @ ''.'' @ str_int b @ ''.'' @ str_int c @ ''.'' @ str_int d))"

subsection \<open>Calling the external client\<close>

text \<open>
  The command line \<open>echo "<attributes>" | radclient -x <server>:<port> <kind> <secret>\<close>.
\<close>

definition radclient_cmd :: "RADNAD \<Rightarrow> pyval multidict \<Rightarrow> int \<Rightarrow> string \<Rightarrow> string" where
  "radclient_cmd nad attrs port kind =
     ''echo '' @ [CHR 0x22] @ to_avp_string attrs @ [CHR 0x22] @ '' | radclient -x ''
       @ server nad @ '':'' @ str_int port @ '' '' @ kind @ '' '' @ secret nad"

text \<open>Running the subprocess: the call is recorded, the world gives the two outputs.\<close>

definition run_shell :: "world \<Rightarrow> RADNAD \<Rightarrow> pyval multidict \<Rightarrow> string \<Rightarrow> RADNAD \<times> string \<times> string" where
  "run_shell w nad attrs cmd =
     (let (out, err) = shell w (map snd (calls nad)) cmd
      in (nad\<lparr> calls := calls nad @ [(attrs, cmd)] \<rparr>, out, err))"

text \<open>\<open>RADIUSResponse(std_out)\<close> inside the device: the parser reads the clock once.\<close>

definition parse_output :: "world \<Rightarrow> RADNAD \<Rightarrow> string \<Rightarrow> RADNAD \<times> (error + RADIUSResponse)" where
  "parse_output w nad out =
     (nad\<lparr> ticks := ticks nad + 1 \<rparr>, RADIUSResponse_init (clock w (ticks nad)) (Some out))"

text \<open>
  \<open>_radclient_cli_cmd\<close>. With a non-empty standard error the message it prints reads
  \<open>req_attrs['Calling-Station-Id']\<close> and \<open>req_attrs['User-Name']\<close>, each a \<open>KeyError\<close>
  when absent.
\<close>

definition radclient_cli_cmd :: "world \<Rightarrow> RADNAD \<Rightarrow> pyval multidict \<Rightarrow> RADNAD \<times> (error + RADIUSResponse)" where
  "radclient_cli_cmd w nad attributes =
     (let (nad1, out, err) = run_shell w nad attributes
                               (radclient_cmd nad attributes (auth_port nad) ''auth'')
      in case parse_output w nad1 out of
           (nad2, Inl e) \<Rightarrow> (nad2, Inl e)
         | (nad2, Inr response) \<Rightarrow>
             if err \<noteq> [] then
               (case md_getitem (req_attrs response) ''Calling-Station-Id'' of
                  Inl e \<Rightarrow> (nad2, Inl e)
                | Inr c \<Rightarrow>
                    (case md_getitem (req_attrs response) ''User-Name'' of
                       Inl e \<Rightarrow> (nad2, Inl e)
                     | Inr u \<Rightarrow> (nad2, Inr response)))
             else (nad2, Inr response))"

subsection \<open>Authentication and accounting\<close>

text \<open>
  \<open>auth(attributes)\<close>. The missing-attribute messages are display only. The session id
  is generated and stored over any value the caller gave.
\<close>

definition auth :: "world \<Rightarrow> RADNAD \<Rightarrow> pyval multidict option \<Rightarrow> RADNAD \<times> (error + RADIUSResponse)" where
  "auth w nad attributes_opt =
     (case attributes_opt of
        None \<Rightarrow> (nad, Inl (ValueError ''attributes is None''))
      | Some attributes \<Rightarrow>
          if length attributes \<le> 0 then (nad, Inl (ValueError ''auth(attributes) is empty''))
          else
            let attributes1 =
                  (if md_get attributes ''NAS-Identifier'' = None
                   then md_setitem ''NAS-Identifier'' (PStr (name nad)) attributes
                   else attributes)
            in (case generate_session_id nad of
                  (nad1, Inl e) \<Rightarrow> (nad1, Inl e)
                | (nad1, Inr sid) \<Rightarrow>
                    radclient_cli_cmd w nad1 (md_setitem ''Acct-Session-Id'' sid attributes1)))"

text \<open>
  \<open>d.update(other)\<close> overwrites the keys of \<open>d\<close> that \<open>other\<close> has and appends the
  others. Both dictionaries here come from the parser, whose keys are unique; on such
  arguments the update is one \<open>d[k] = v\<close> per item of \<open>other\<close>.
\<close>

definition md_update :: "'v multidict \<Rightarrow> 'v multidict \<Rightarrow> 'v multidict" where
  "md_update other d = foldl (\<lambda>acc item. md_setitem (fst item) (snd item) acc) d other"

text \<open>
  \<open>acct(auth, state)\<close>. The guards come in the order of the source: the record is
  there, its request attributes are not empty, a rejected authentication is handed back
  as it is, the state is Start or Stop, the response attributes are not empty. (The
  message of the last guard leaves the rendered record out.)
\<close>

definition acct :: "world \<Rightarrow> RADNAD \<Rightarrow> RADIUSResponse option \<Rightarrow> string \<Rightarrow> RADNAD \<times> (error + RADIUSResponse)" where
  "acct w nad auth_opt state =
     (case auth_opt of
        None \<Rightarrow> (nad, Inl (ValueError ''acct(auth) is None''))
      | Some a \<Rightarrow>
          if length (req_attrs a) \<le> 0 then (nad, Inl (ValueError ''auth.req_attrs is empty''))
          else if rsp_type a = ACCESS_REJECT then (nad, Inr a)
          else if state \<noteq> ACCT_START \<and> state \<noteq> ACCT_STOP
          then (nad, Inl (ValueError ''acct(state) is invalid''))
          else if length (rsp_attrs a) \<le> 0
          then (nad, Inl (ValueError ''auth.rsp_attrs is empty''))
          else
            let attrs0 = md_update (map (apsnd PStr) (rsp_attrs a)) (map (apsnd PStr) (req_attrs a));
                attrs1 = snd (md_pop ''User-Password'' (PStr []) attrs0);
                attrs2 = snd (md_pop ''CHAP-Password'' (PStr []) attrs1);
                attrs3 = snd (md_pop ''Reply-Message'' (PStr []) attrs2);
                attrs4 = snd (md_pop ''State'' (PStr []) attrs3);
                attrs5 = snd (md_pop ''Cleartext-Password'' (PStr []) attrs4);
                attrs6 = md_setitem ''Acct-Status-Type'' (PStr state) attrs5
            in (case (if md_get attrs6 ''Acct-Session-Id'' = None
                     then (case generate_session_id nad of
                             (nad1, Inl e) \<Rightarrow> (nad1, Inl e)
                           | (nad1, Inr sid) \<Rightarrow>
                               (nad1, Inr (md_setitem ''Acct-Session-Id'' sid attrs6)))
                     else (nad, Inr attrs6)) of
                 (nad1, Inl e) \<Rightarrow> (nad1, Inl e)
               | (nad1, Inr attrs7) \<Rightarrow>
                   let attrs8 = md_setitem ''NAS-Identifier'' (PStr (name nad1)) attrs7;
                       (nad2, ip) = generate_ip_address w nad1;
                       attrs9 = md_setitem ''Framed-IP-Address'' (PStr ip) attrs8;
                       (nad3, out, err) = run_shell w nad2 attrs9
                                            (radclient_cmd nad2 attrs9 (acct_port nad2) ''acct'')
                   in parse_output w nad3 out))"

subsection \<open>The session table\<close>

text \<open>
  \<open>create_session(response)\<close>: the row is filled by popping the columns out of the
  request attributes of the response (so the response object loses them), what is left
  goes to \<open>Other\<close>, and the row is appended to the table. The index is the time stamp
  of the response, written with milliseconds.
\<close>

definition create_session :: "RADNAD \<Rightarrow> RADIUSResponse \<Rightarrow> RADNAD \<times> (error + RADIUSResponse)" where
  "create_session nad response =
     (if rsp_type response \<noteq> ACCOUNTING_RESPONSE
      then (nad, Inl (ValueError (''RADIUS Response Type '' @ rsp_type response @ '' is not ''
                                  @ ACCOUNTING_RESPONSE)))
      else
        let method = guess_access_method response;
            a0 = map (apsnd PStr) (req_attrs response);
            (status, a1) = md_pop ''Acct-Status-Type'' (PStr ACCT_START) a0;
            (user_name, a2) = md_pop ''User-Name'' (PStr []) a1;
            (calling, a3) = md_pop ''Calling-Station-Id'' (PStr []) a2;
            (framed_ip, a4) = md_pop ''Framed-IP-Address'' (PStr []) a3;
            (session_timeout, a5) = md_pop ''Session-Timeout'' (PInt SESSION_TIMEOUT) a4;
            (sid, a6) = md_pop ''Acct-Session-Id'' (PStr []) a5;
            (called, a7) = md_pop ''Called-Station-Id'' (PStr []) a6;
            (port_type, a8) = md_pop ''NAS-Port-Type'' (PStr []) a7;
            (port_id, a9) = md_pop ''NAS-Port-Id'' (PStr []) a8;
            (port, a10) = md_pop ''NAS-Port'' (PStr []) a9;
            (nas_identifier, a11) = md_pop ''NAS-Identifier'' (PStr []) a10;
            (class, a12) = md_pop ''Class'' (PStr []) a11;
            row = \<lparr> Timestamp = (timestamp response div 1000) * 1000,
                    Method = PStr method, Status = status, User_Name = user_name,
                    Calling_Station_Id = calling, Framed_IP_Address = framed_ip,
                    Session_Timeout = session_timeout, Acct_Session_Id = sid,
                    Called_Station_Id = called, NAS_Port_Type = port_type,
                    NAS_Port_Id = port_id, NAS_Port = port, NAS_Identifier = nas_identifier,
                    Class = class, Other = PStr (to_avp_string a12) \<rparr>
        in (nad\<lparr> sessions := sessions nad @ [row] \<rparr>,
            Inr (response\<lparr> req_attrs := map (apsnd str_pyval) a12 \<rparr>)))"

text \<open>
  \<open>session(attrs)\<close>: authenticate, on Access-Accept send the accounting Start, on
  Accounting-Response create the session. The last branch looks the response type up in
  \<open>RESPONSE_ICONS\<close>.
\<close>

definition session :: "world \<Rightarrow> RADNAD \<Rightarrow> pyval multidict option \<Rightarrow> RADNAD \<times> (error + RADIUSResponse)" where
  "session w nad attrs =
     (case auth w nad attrs of
        (nad1, Inl e) \<Rightarrow> (nad1, Inl e)
      | (nad1, Inr response) \<Rightarrow>
          if rsp_type response = ACCESS_ACCEPT then
            (case acct w nad1 (Some response) ACCT_START of
               (nad2, Inl e) \<Rightarrow> (nad2, Inl e)
             | (nad2, Inr response2) \<Rightarrow>
                 if rsp_type response2 = ACCOUNTING_RESPONSE then create_session nad2 response2
                 else (nad2, Inr response2))
          else if rsp_type response = ACCESS_REJECT then (nad1, Inr response)
          else if rsp_type response = ACCESS_CHALLENGE then (nad1, Inr response)
          else if rsp_type response \<in> set RESPONSE_ICONS_keys then (nad1, Inr response)
          else (nad1, Inl (KeyError (rsp_type response))))"

text \<open>
  \<open>DataFrame.drop(labels)\<close> removes every row whose index label is among the labels.
\<close>

definition df_drop :: "int list \<Rightarrow> session list \<Rightarrow> session list" where
  "df_drop labels df = filter (\<lambda>row. Timestamp row \<notin> set labels) df"

text \<open>
  \<open>acct_stop_by_attrs(attrs)\<close>. A \<open>Timestamp\<close> attribute would be subtracted from the
  clock reading, which raises \<open>TypeError\<close> on an integer or a string. On an accepted
  Stop the table drops the index labels of the rows whose \<open>Acct-Session-Id\<close> equals
  the one sent.
\<close>

definition acct_stop_by_attrs :: "world \<Rightarrow> RADNAD \<Rightarrow> pyval multidict option \<Rightarrow> RADNAD \<times> (error + RADIUSResponse)" where
  "acct_stop_by_attrs w nad attrs_opt =
     (case attrs_opt of
        None \<Rightarrow> (nad, Inl (ValueError ''attrs is None''))
      | Some attrs \<Rightarrow>
          if md_get attrs ''Acct-Session-Id'' = None
          then (nad, Inl (ValueError ''Acct-Session-Id is None''))
          else if md_get attrs ''User-Name'' = None
          then (nad, Inl (ValueError ''User-Name is None''))
          else if md_get attrs ''Calling-Station-Id'' = None
          then (nad, Inl (ValueError ''Calling-Station-Id is None''))
          else
            let attrs1 = (if md_get attrs ''Acct-Status-Type'' = None
                          then md_setitem ''Acct-Status-Type'' (PStr ACCT_STOP) attrs
                          else attrs)
            in if md_get attrs1 ''Timestamp'' \<noteq> None
               then (nad\<lparr> ticks := ticks nad + 1 \<rparr>, Inl TypeError)
               else
                 let (nad1, out, err) = run_shell w nad attrs1
                                          (radclient_cmd nad attrs1 (acct_port nad) ''acct'')
                 in (case parse_output w nad1 out of
                      (nad2, Inl e) \<Rightarrow> (nad2, Inl e)
                    | (nad2, Inr response) \<Rightarrow>
                        if is_accepted response
                        then (nad2\<lparr> sessions :=
                                df_drop (map Timestamp
                                          (filter (\<lambda>row. Some (Acct_Session_Id row)
                                                          = md_get attrs1 ''Acct-Session-Id'')
                                                  (sessions nad2)))
                                        (sessions nad2) \<rparr>,
                              Inr response)
                        else (nad2, Inr response)))"

subsection \<open>Expiration\<close>

definition four_days :: int where
  "four_days = 4 * 86400 * 1000000"

text \<open>
  The \<open>seconds\<close> attribute of a time difference: the seconds within the day, from 0 to
  86399, the whole days being held apart in \<open>days\<close>.
\<close>

definition timedelta_seconds :: "int \<Rightarrow> int" where
  "timedelta_seconds d = (d div 1000000) mod 86400"

fun is_PStr :: "pyval \<Rightarrow> bool" where
  "is_PStr (PStr s) = True"
| "is_PStr (PInt i) = False"

text \<open>\<open>seconds > Session-Timeout\<close> on one row (the column holds integers here).\<close>

fun exceeds :: "int \<Rightarrow> pyval \<Rightarrow> bool" where
  "exceeds secs (PInt t) = (secs > t)"
| "exceeds secs (PStr s) = False"

text \<open>The loop over the expired rows: one Stop per row, the responses collected.\<close>

fun stop_loop :: "world \<Rightarrow> RADNAD \<Rightarrow> session list \<Rightarrow> RADIUSResponse list \<Rightarrow>
    RADNAD \<times> (error + RADIUSResponse list)" where
  "stop_loop w nad [] responses = (nad, Inr responses)"
| "stop_loop w nad (row # rows) responses =
     (let attrs = [(''Acct-Status-Type'', PStr ''Stop''),
                   (''Acct-Session-Id'', Acct_Session_Id row),
                   (''User-Name'', User_Name row),
                   (''Calling-Station-Id'', Calling_Station_Id row)]
      in case acct_stop_by_attrs w nad (Some attrs) of
           (nad1, Inl e) \<Rightarrow> (nad1, Inl e)
         | (nad1, Inr response) \<Rightarrow> stop_loop w nad1 rows (responses @ [response]))"

text \<open>
  \<open>stop_expired_sessions\<close>. First the rows older than four days are dropped, by the
  index labels of the rows that carry their session ids. Then the clock is read again
  and the rows whose \<open>seconds\<close> exceed their \<open>Session-Timeout\<close> are stopped one by one;
  comparing the integer seconds with a column that holds a string raises \<open>TypeError\<close>.
\<close>

definition stop_expired_sessions :: "world \<Rightarrow> RADNAD \<Rightarrow> RADNAD \<times> (error + RADIUSResponse list)" where
  "stop_expired_sessions w nad =
     (let four_day_expiration = clock w (ticks nad) - four_days;
          nad1 = nad\<lparr> ticks := ticks nad + 1 \<rparr>;
          df_expired = filter (\<lambda>row. Timestamp row < four_day_expiration) (sessions nad1);
          nad2 = (if length df_expired > 0
                  then nad1\<lparr> sessions :=
                         df_drop (map Timestamp
                                   (filter (\<lambda>row. Acct_Session_Id row
                                                   \<in> set (map Acct_Session_Id df_expired))
                                           (sessions nad1)))
                                 (sessions nad1) \<rparr>
                  else nad1)
      in if length (sessions nad2) \<le> 0 then (nad2, Inr [])
         else
           let now = clock w (ticks nad2);
               nad3 = nad2\<lparr> ticks := ticks nad2 + 1 \<rparr>
           in if list_ex (\<lambda>row. is_PStr (Session_Timeout row)) (sessions nad3)
              then (nad3, Inl TypeError)
              else
                let df_expired2 = filter (\<lambda>row. exceeds (timedelta_seconds (now - Timestamp row))
                                                         (Session_Timeout row))
                                         (sessions nad3)
                in if length df_expired2 > 0 then stop_loop w nad3 df_expired2 []
                   else (nad3, Inr []))"


section \<open>Sample transcripts\<close>

definition tab :: string where "tab = [CHR 0x09]"
definition dq :: string where "dq = [CHR 0x22]"

text \<open>
  An accepted authentication as the client prints it, with a repeated \<open>Cisco-AVPair\<close>
  among the response attributes.
\<close>

definition transcript_accept :: string where
  "transcript_accept =
     ''Sent Access-Request Id 192 from 0.0.0.0:fd98 to 1.2.3.4:1812 length 59\<newline>''
     @ tab @ ''User-Name = '' @ dq @ ''ahoward'' @ dq @ ''\<newline>''
     @ tab @ ''User-Password = '' @ dq @ ''C1sco12345'' @ dq @ ''\<newline>''
     @ tab @ ''Service-Type = Framed\<newline>''
     @ tab @ ''NAS-Port-Type = Ethernet\<newline>''
     @ tab @ ''Cleartext-Password = '' @ dq @ ''C1sco12345'' @ dq @ ''\<newline>''
     @ ''Received Access-Accept Id 192 from 1.2.3.4:714 to 10.16.51.114:64920 length 106\<newline>''
     @ tab @ ''User-Name = '' @ dq @ ''ahoward'' @ dq @ ''\<newline>''
     @ tab @ ''Cisco-AVPair = '' @ dq @ ''cts:security-group-tag=0010-00'' @ dq @ ''\<newline>''
     @ tab @ ''Cisco-AVPair = '' @ dq @ ''profile-name=Unknown'' @ dq @ ''\<newline>''"

text \<open>
  An accepted authentication whose password begins and ends with a space; the client
  prints string values between double quotes.
\<close>

definition spaced_password :: string where
  "spaced_password = '' pass word ''"

definition transcript_spaced_password :: string where
  "transcript_spaced_password =
     ''Sent Access-Request Id 193 from 0.0.0.0:fd99 to 1.2.3.4:1812 length 60\<newline>''
     @ tab @ ''User-Name = '' @ dq @ ''ahoward'' @ dq @ ''\<newline>''
     @ tab @ ''User-Password = '' @ dq @ spaced_password @ dq @ ''\<newline>''
     @ ''Received Access-Accept Id 193 from 1.2.3.4:714 to 10.16.51.114:64920 length 29\<newline>''
     @ tab @ ''User-Name = '' @ dq @ ''ahoward'' @ dq @ ''\<newline>''"

text \<open>The client's output when the server does not answer.\<close>

definition transcript_timeout :: string where
  "transcript_timeout = ''(0) No reply from server for ID 124 socket 4\<newline>''"

text \<open>The same, for a request whose user name is the word \<open>Received\<close>.\<close>

definition transcript_timeout_named :: string where
  "transcript_timeout_named =
     ''Sent Access-Request Id 124 from 0.0.0.0:d618 to 1.2.3.4:1812 length 58\<newline>''
     @ tab @ ''User-Name = '' @ dq @ ''Received'' @ dq @ ''\<newline>''
     @ ''(0) No reply from server for ID 124 socket 4\<newline>''"

text \<open>A transcript whose \<open>Received\<close> line carries the packet type Accounting-Request.\<close>

definition transcript_acct_request :: string where
  "transcript_acct_request =
     ''Sent Accounting-Request Id 5 from 0.0.0.0:d001 to 1.2.3.4:1813 length 30\<newline>''
     @ tab @ ''User-Name = '' @ dq @ ''bob'' @ dq @ ''\<newline>''
     @ ''Received Accounting-Request Id 5 from 1.2.3.4:1813 to 10.0.0.9:53250 length 20\<newline>''"

text \<open>
  Two notions as the specification words them: a \<open>Received\<close> line is a line of the
  transcript that begins with that word, and the response kinds are the four it lists.
\<close>

definition has_received_line :: "string \<Rightarrow> bool" where
  "has_received_line c \<longleftrightarrow> list_ex (\<lambda>l. startswith l ''Received'') (str_splitlines c)"

definition spec_response_kinds :: "string list" where
  "spec_response_kinds =
     [''Access-Accept'', ''Access-Reject'', ''Access-Challenge'', ''Accounting-Response'']"



text \<open>A rejected authentication as the client prints it.\<close>

definition transcript_reject :: string where
  "transcript_reject =
     ''Sent Access-Request Id 107 from 0.0.0.0:d618 to 1.2.3.4:1812 length 58\<newline>''
     @ tab @ ''User-Name = '' @ dq @ ''bjones'' @ dq @ ''\<newline>''
     @ tab @ ''User-Password = '' @ dq @ ''C1sco12345'' @ dq @ ''\<newline>''
     @ tab @ ''Service-Type = Framed\<newline>''
     @ tab @ ''NAS-Port-Type = Ethernet\<newline>''
     @ tab @ ''Cleartext-Password = '' @ dq @ ''C1sco12345'' @ dq @ ''\<newline>''
     @ ''Received Access-Reject Id 107 from 1.2.3.4:714 to 10.16.92.65:54808 length 20\<newline>''"

text \<open>A rejected authentication whose request carried no attribute.\<close>

definition transcript_reject_bare :: string where
  "transcript_reject_bare =
     ''Sent Access-Request Id 107 from 0.0.0.0:d618 to 1.2.3.4:1812 length 20\<newline>''
     @ ''Received Access-Reject Id 107 from 1.2.3.4:714 to 10.16.92.65:54808 length 20\<newline>''"

text \<open>A world whose server never answers, and a device just constructed.\<close>

definition silent_world :: world where
  "silent_world = \<lparr> shell = (\<lambda>history cmd. (transcript_timeout, [])),
                     clock = (\<lambda>n. 1700000000000000 + 1000000 * int n),
                     entropy = (\<lambda>n. n) \<rparr>"

definition fresh_nad :: RADNAD where
  "fresh_nad = \<lparr> name = ''RADNAD'', server = ''1.2.3.4'', secret = ''C1sco12345'',
                  auth_port = 1812, acct_port = 1813, coa_port = 1700, options = ''-x'',
                  timeout = 5, retries = 3, sessions = [], counter = PyInt 0, level = 0,
                  calls = [], ticks = 0, draws = 0 \<rparr>"



text \<open>
  A round trip. The client's three outputs: an accepted authentication of user
  \<open>bob\<close>, the accepted accounting Start that follows it, and an accepted accounting
  Stop for the same session id.
\<close>

definition transcript_auth_bob :: string where
  "transcript_auth_bob =
     ''Sent Access-Request Id 10 from 0.0.0.0:d001 to 1.2.3.4:1812 length 80\<newline>''
     @ tab @ ''User-Name = '' @ dq @ ''bob'' @ dq @ ''\<newline>''
     @ tab @ ''User-Password = '' @ dq @ ''pw'' @ dq @ ''\<newline>''
     @ tab @ ''Calling-Station-Id = '' @ dq @ ''02:00:00:00:00:01'' @ dq @ ''\<newline>''
     @ tab @ ''NAS-Identifier = '' @ dq @ ''RADNAD'' @ dq @ ''\<newline>''
     @ tab @ ''Acct-Session-Id = '' @ dq @ ''2'' @ dq @ ''\<newline>''
     @ ''Received Access-Accept Id 10 from 1.2.3.4:1812 to 10.0.0.9:53249 length 40\<newline>''
     @ tab @ ''User-Name = '' @ dq @ ''bob'' @ dq @ ''\<newline>''
     @ tab @ ''Class = 0x4341\<newline>''"

definition transcript_start_bob :: string where
  "transcript_start_bob =
     ''Sent Accounting-Request Id 11 from 0.0.0.0:d002 to 1.2.3.4:1813 length 90\<newline>''
     @ tab @ ''User-Name = '' @ dq @ ''bob'' @ dq @ ''\<newline>''
     @ tab @ ''Calling-Station-Id = '' @ dq @ ''02:00:00:00:00:01'' @ dq @ ''\<newline>''
     @ tab @ ''NAS-Identifier = '' @ dq @ ''RADNAD'' @ dq @ ''\<newline>''
     @ tab @ ''Acct-Session-Id = '' @ dq @ ''2'' @ dq @ ''\<newline>''
     @ tab @ ''Class = 0x4341\<newline>''
     @ tab @ ''Acct-Status-Type = Start\<newline>''
     @ tab @ ''Framed-IP-Address = 1.2.3.5\<newline>''
     @ ''Received Accounting-Response Id 11 from 1.2.3.4:1813 to 10.0.0.9:53250 length 20\<newline>''"

definition transcript_stop_bob :: string where
  "transcript_stop_bob =
     ''Sent Accounting-Request Id 12 from 0.0.0.0:d003 to 1.2.3.4:1813 length 60\<newline>''
     @ tab @ ''Acct-Status-Type = Stop\<newline>''
     @ tab @ ''Acct-Session-Id = '' @ dq @ ''2'' @ dq @ ''\<newline>''
     @ tab @ ''User-Name = '' @ dq @ ''bob'' @ dq @ ''\<newline>''
     @ tab @ ''Calling-Station-Id = '' @ dq @ ''02:00:00:00:00:01'' @ dq @ ''\<newline>''
     @ ''Received Accounting-Response Id 12 from 1.2.3.4:1813 to 10.0.0.9:53251 length 20\<newline>''"

text \<open>
  The world of the round trip: the server answers the first command with the
  authentication, the second with the Start and any later one with the Stop; the three
  clock readings fall in the millisecond that begins at 1700000000000000.
\<close>

definition roundtrip_world :: world where
  "roundtrip_world =
     \<lparr> shell = (\<lambda>history cmd. if length history = 0 then (transcript_auth_bob, [])
                               else if length history = 1 then (transcript_start_bob, [])
                               else (transcript_stop_bob, [])),
       clock = (\<lambda>n. 1700000000000100 + 300 * int n),
       entropy = (\<lambda>n. n) \<rparr>"

text \<open>A table row with the given index, session id and session time-out.\<close>

definition sample_row :: "int \<Rightarrow> pyval \<Rightarrow> pyval \<Rightarrow> session" where
  "sample_row ts sid tmo =
     \<lparr> Timestamp = ts, Method = PStr ''Unknown'', Status = PStr ''Start'',
       User_Name = PStr ''alice'', Calling_Station_Id = PStr ''02:00:00:00:00:02'',
       Framed_IP_Address = PStr ''9.9.9.9'', Session_Timeout = tmo, Acct_Session_Id = sid,
       Called_Station_Id = PStr [], NAS_Port_Type = PStr [], NAS_Port_Id = PStr [],
       NAS_Port = PStr [], NAS_Identifier = PStr ''RADNAD'', Class = PStr ''0x4341'',
       Other = PStr [] \<rparr>"

text \<open>
  A device that holds one live session, of id 1, started in that same millisecond.
\<close>

definition roundtrip_nad :: RADNAD where
  "roundtrip_nad =
     fresh_nad\<lparr> sessions := [sample_row 1700000000000000 (PStr ''1'') (PInt 3600)],
                counter := PyInt 1 \<rparr>"

definition bob_attrs :: "pyval multidict" where
  "bob_attrs = [(''User-Name'', PStr ''bob''), (''User-Password'', PStr ''pw''),
                (''Calling-Station-Id'', PStr ''02:00:00:00:00:01'')]"

definition bob_stop_attrs :: "pyval multidict" where
  "bob_stop_attrs = [(''Acct-Status-Type'', PStr ''Stop''), (''Acct-Session-Id'', PStr ''2''),
                     (''User-Name'', PStr ''bob''),
                     (''Calling-Station-Id'', PStr ''02:00:00:00:00:01'')]"

text \<open>An accepted accounting Stop for session 8 of user \<open>alice\<close>.\<close>

definition transcript_stop_alice :: string where
  "transcript_stop_alice =
     ''Sent Accounting-Request Id 13 from 0.0.0.0:d004 to 1.2.3.4:1813 length 60\<newline>''
     @ tab @ ''Acct-Status-Type = Stop\<newline>''
     @ tab @ ''Acct-Session-Id = 8\<newline>''
     @ tab @ ''User-Name = '' @ dq @ ''alice'' @ dq @ ''\<newline>''
     @ tab @ ''Calling-Station-Id = '' @ dq @ ''02:00:00:00:00:02'' @ dq @ ''\<newline>''
     @ ''Received Accounting-Response Id 13 from 1.2.3.4:1813 to 10.0.0.9:53252 length 20\<newline>''"

text \<open>
  A sweep. The table was loaded with one session of time-out 60 seconds; both clock
  readings of the sweep come 86430 seconds (a day and half a minute) after its start.
\<close>

definition day_world :: world where
  "day_world = \<lparr> shell = (\<lambda>history cmd. (transcript_stop_alice, [])),
                  clock = (\<lambda>n. 1700000000000000 + 86430 * 1000000),
                  entropy = (\<lambda>n. n) \<rparr>"

definition day_nad :: RADNAD where
  "day_nad = fresh_nad\<lparr> sessions := [sample_row 1700000000000000 (PInt 7) (PInt 60)],
                        counter := NpInt64 7 \<rparr>"

text \<open>
  Another sweep: a session started five days and 61 seconds before the clock readings,
  and one of time-out 60 seconds started 61 seconds before them.
\<close>

definition sweep_world :: world where
  "sweep_world = \<lparr> shell = (\<lambda>history cmd. (transcript_stop_alice, [])),
                    clock = (\<lambda>n. 1700000000000000 + (5 * 86400 + 61) * 1000000),
                    entropy = (\<lambda>n. n) \<rparr>"

definition sweep_nad :: RADNAD where
  "sweep_nad =
     fresh_nad\<lparr> sessions := [sample_row 1700000000000000 (PInt 7) (PInt 3600),
                             sample_row (1700000000000000 + 5 * 86400 * 1000000) (PInt 8) (PInt 60)],
                counter := NpInt64 8 \<rparr>"

text \<open>
  The standard outputs the world gives to a sequence of calls, after the commands of
  \<open>history\<close>.
\<close>

fun answers :: "world \<Rightarrow> string list \<Rightarrow> (pyval multidict \<times> string) list \<Rightarrow> string list" where
  "answers w history [] = []"
| "answers w history (call # rest) =
     fst (shell w history (snd call)) # answers w (history @ [snd call]) rest"


section \<open>Properties of the parser\<close>

lemma startswith_prefix: "startswith s sub \<longleftrightarrow> prefix sub s"
  unfolding startswith_def by (metis append_eq_conv_conj prefix_def take_is_prefix)

text \<open>\<open>find\<close> reports an index exactly when the text occurs.\<close>

lemma str_find_sublist: "0 \<le> str_find s sub \<longleftrightarrow> sublist sub s"
proof (induction s)
  case Nil
  then show ?case by simp
next
  case (Cons c cs)
  then show ?case
    by (auto simp: startswith_prefix Let_def sublist_Cons_right)
qed

lemma parse_sections_rsp_type:
  "parse_sections now c = Inr r \<Longrightarrow> rsp_type r \<in> set RSP_TYPES"
  unfolding parse_sections_def
  by (auto split: list.splits sum.splits prod.splits if_splits)

lemma RADIUSResponse_init_Inr:
  assumes "RADIUSResponse_init now co = Inr r"
  obtains c raw where "co = Some c" and "parse_sections now c = Inr raw"
    and "r = raw\<lparr> req_attrs := redact_attr ''Cleartext-Password''
                                  (redact_attr ''User-Password'' (req_attrs raw)) \<rparr>"
  using assms unfolding RADIUSResponse_init_def
  by (auto split: option.splits if_splits sum.splits)

text \<open>When the text \<open>Received\<close> occurs nowhere, the parser raises the time-out.\<close>

lemma timeout_when_text_absent:
  assumes "\<not> sublist ''Received'' c"
  shows "RADIUSResponse_init now (Some c) = Inl (TimeoutError c)"
proof -
  from assms have "\<not> 0 \<le> str_find c ''Received''"
    by (simp add: str_find_sublist)
  then show ?thesis
    by (simp add: RADIUSResponse_init_def)
qed

lemma timeout_example:
  "RADIUSResponse_init 0 (Some transcript_timeout) = Inl (TimeoutError transcript_timeout)"
  by code_simp

text \<open>
  C2. \<open>transcript_timeout_named\<close> is what the client prints when the server does not
  answer a request whose user name is \<open>Received\<close>: it has no line that begins with
  \<open>Received\<close>. The parser does not raise the time-out on it: it reads on and ends in
  the \<open>ValueError\<close> of a failed unpacking.
\<close>

theorem timeout_named_not_reported:
  "\<not> has_received_line transcript_timeout_named
   \<and> RADIUSResponse_init 0 (Some transcript_timeout_named) = Inl (ValueError ''unpack'')
   \<and> RADIUSResponse_init 0 (Some transcript_timeout_named)
       \<noteq> Inl (TimeoutError transcript_timeout_named)"
  by code_simp

text \<open>
  C5. The response section of \<open>transcript_accept\<close> has two \<open>Cisco-AVPair\<close> lines; the
  parsed response attributes hold one \<open>Cisco-AVPair\<close> item, with the value of the
  second line.
\<close>

theorem duplicate_names_coalesce:
  "map_sum id rsp_attrs (RADIUSResponse_init 0 (Some transcript_accept))
   = Inr [(''User-Name'', ''ahoward''), (''Cisco-AVPair'', ''profile-name=Unknown'')]"
  by code_simp

text \<open>
  C7, as amended. A transcript is parsed into a record only when its \<open>Received\<close> line
  carries one of the five packet types of \<open>RSP_TYPES\<close>: Access-Accept, Access-Reject,
  Accounting-Request, Accounting-Response or Access-Challenge.
\<close>

theorem rsp_type_known:
  assumes "RADIUSResponse_init now co = Inr r"
  shows "rsp_type r \<in> {''Access-Accept'', ''Access-Reject'', ''Accounting-Request'',
                        ''Accounting-Response'', ''Access-Challenge''}"
proof -
  from assms obtain c raw where raw: "parse_sections now c = Inr raw"
    and r: "r = raw\<lparr> req_attrs := redact_attr ''Cleartext-Password''
                                    (redact_attr ''User-Password'' (req_attrs raw)) \<rparr>"
    by (rule RADIUSResponse_init_Inr)
  from parse_sections_rsp_type [OF raw] have "rsp_type raw \<in> set RSP_TYPES" .
  then show ?thesis
    by (simp add: r RSP_TYPES_def ACCESS_ACCEPT_def ACCESS_REJECT_def ACCOUNTING_REQUEST_def
          ACCOUNTING_RESPONSE_def ACCESS_CHALLENGE_def)
qed

theorem rsp_type_known_witness:
  "\<not> isl (RADIUSResponse_init 0 (Some transcript_accept))
   \<and> rsp_type (projr (RADIUSResponse_init 0 (Some transcript_accept)))
       \<in> {''Access-Accept'', ''Access-Reject'', ''Accounting-Request'',
           ''Accounting-Response'', ''Access-Challenge''}"
proof -
  have ok: "\<not> isl (RADIUSResponse_init 0 (Some transcript_accept))"
    by code_simp
  then have h: "RADIUSResponse_init 0 (Some transcript_accept)
                = Inr (projr (RADIUSResponse_init 0 (Some transcript_accept)))"
    by (cases "RADIUSResponse_init 0 (Some transcript_accept)") simp_all
  show ?thesis
    using ok rsp_type_known [OF h] by simp
qed

text \<open>
  C7 as stated fails: Accounting-Request is none of the four response kinds, and a
  transcript whose \<open>Received\<close> line carries it is parsed into a record.
\<close>

theorem rsp_type_counterexample:
  "''Accounting-Request'' \<notin> set spec_response_kinds
   \<and> map_sum id rsp_type (RADIUSResponse_init 0 (Some transcript_acct_request))
       = Inr ''Accounting-Request''"
  by code_simp

text \<open>Reading a dictionary after \<open>d[k] = v\<close>.\<close>

lemma md_getall_setitem_same: "md_getall (md_setitem k v d) k = [v]"
proof (induction d)
  case Nil
  then show ?case by (simp add: md_getall_def)
next
  case (Cons item items)
  have "filter (\<lambda>i. fst i = k) (filter (\<lambda>i. fst i \<noteq> k) items) = []"
    by (simp add: filter_empty_conv)
  with Cons show ?case by (simp add: md_getall_def)
qed

lemma md_getall_setitem_other: "k' \<noteq> k \<Longrightarrow> md_getall (md_setitem k v d) k' = md_getall d k'"
proof (induction d)
  case Nil
  then show ?case by (simp add: md_getall_def)
next
  case (Cons item items)
  have "filter (\<lambda>i. fst i = k') (filter (\<lambda>i. fst i \<noteq> k) items) = filter (\<lambda>i. fst i = k') items"
    using Cons.prems by (induction items) auto
  with Cons show ?case by (auto simp: md_getall_def)
qed

lemma map_of_setitem_other: "k' \<noteq> k \<Longrightarrow> map_of (md_setitem k v d) k' = map_of d k'"
proof (induction d)
  case Nil
  then show ?case by simp
next
  case (Cons item items)
  have "map_of (filter (\<lambda>i. fst i \<noteq> k) items) k' = map_of items k'"
    using Cons.prems by (induction items) auto
  with Cons show ?case by (cases item) auto
qed

lemma redact_attr_same:
  "md_get d k = Some v \<Longrightarrow> md_getall (redact_attr k d) k = [replicate (length v) CHR ''*'']"
  by (simp add: redact_attr_def md_get_def md_getall_setitem_same)

lemma redact_attr_other_getall: "k' \<noteq> k \<Longrightarrow> md_getall (redact_attr k d) k' = md_getall d k'"
  by (simp add: redact_attr_def md_getall_setitem_other split: option.splits)

lemma redact_attr_other_get: "k' \<noteq> k \<Longrightarrow> md_get (redact_attr k d) k' = md_get d k'"
  by (simp add: redact_attr_def md_get_def map_of_setitem_other split: option.splits)

text \<open>
  What redaction does to the stored values: when a transcript is parsed into a record,
  the response attributes are those read from the transcript, and if the request
  attributes as stored held a \<open>User-Password\<close> (or a \<open>Cleartext-Password\<close>) of value
  \<open>v\<close>, the record holds for that name one value only, as many asterisks as \<open>v\<close> has
  characters.
\<close>

lemma stored_passwords_redacted:
  assumes "RADIUSResponse_init now (Some c) = Inr r"
  shows "\<exists>raw. parse_sections now c = Inr raw
           \<and> rsp_attrs r = rsp_attrs raw
           \<and> (\<forall>v. md_get (req_attrs raw) ''User-Password'' = Some v \<longrightarrow>
                 md_getall (req_attrs r) ''User-Password'' = [replicate (length v) CHR ''*''])
           \<and> (\<forall>v. md_get (req_attrs raw) ''Cleartext-Password'' = Some v \<longrightarrow>
                 md_getall (req_attrs r) ''Cleartext-Password'' = [replicate (length v) CHR ''*''])"
proof -
  from assms obtain c' raw where c': "Some c = Some c'" and raw: "parse_sections now c' = Inr raw"
    and r: "r = raw\<lparr> req_attrs := redact_attr ''Cleartext-Password''
                                    (redact_attr ''User-Password'' (req_attrs raw)) \<rparr>"
    by (rule RADIUSResponse_init_Inr)
  have up: "md_getall (req_attrs r) ''User-Password'' = [replicate (length v) CHR ''*'']"
    if "md_get (req_attrs raw) ''User-Password'' = Some v" for v
    using that by (simp add: r redact_attr_other_getall redact_attr_same)
  have cp: "md_getall (req_attrs r) ''Cleartext-Password'' = [replicate (length v) CHR ''*'']"
    if "md_get (req_attrs raw) ''Cleartext-Password'' = Some v" for v
    using that by (simp add: r redact_attr_other_get redact_attr_same)
  from c' raw have "parse_sections now c = Inr raw" by simp
  moreover have "rsp_attrs r = rsp_attrs raw" by (simp add: r)
  ultimately show ?thesis using up cp by blast
qed

text \<open>The password \<open>C1sco12345\<close> of \<open>transcript_accept\<close> is masked by ten asterisks.\<close>

lemma redaction_example:
  "map_sum id (\<lambda>r. (md_getall (req_attrs r) ''User-Password'',
                     md_getall (req_attrs r) ''Cleartext-Password'',
                     md_getall (rsp_attrs r) ''User-Name''))
     (RADIUSResponse_init 0 (Some transcript_accept))
   = Inr ([''**********''], [''**********''], [''ahoward''])"
  by code_simp

text \<open>
  C6. The request of \<open>transcript_spaced_password\<close> carries the password
  \<open>spaced_password\<close>, eleven characters of which the first and the last are spaces.
  The parsed request attributes hold nine asterisks for it, not eleven: the value was
  stripped of its spaces before its length was taken.
\<close>

theorem password_mask_too_short:
  "length spaced_password = 11
   \<and> map_sum id (\<lambda>r. md_getall (req_attrs r) ''User-Password'')
        (RADIUSResponse_init 0 (Some transcript_spaced_password))
       = Inr [replicate 9 CHR ''*'']"
  by code_simp

lemma parse_sections_content: "parse_sections now c = Inr r \<Longrightarrow> content r = c"
  unfolding parse_sections_def
  by (auto split: list.splits sum.splits prod.splits if_splits)

lemma RADIUSResponse_init_content:
  assumes "RADIUSResponse_init now (Some c) = Inr r"
  shows "content r = c"
proof -
  from assms obtain c' raw where "Some c = Some c'" and "parse_sections now c' = Inr raw"
    and "r = raw\<lparr> req_attrs := redact_attr ''Cleartext-Password''
                                  (redact_attr ''User-Password'' (req_attrs raw)) \<rparr>"
    by (rule RADIUSResponse_init_Inr)
  then show ?thesis using parse_sections_content by auto
qed


section \<open>Properties of the device\<close>

lemma randrange_bounds:
  assumes "randrange start stop r = Inr p"
  shows "start \<le> p \<and> p < stop"
proof -
  from assms have lt: "start < stop" and p: "p = start + int r mod (stop - start)"
    by (auto simp: randrange_def split: if_splits)
  have "0 \<le> int r mod (stop - start)" and "int r mod (stop - start) < stop - start"
    using lt by simp_all
  then show ?thesis using p by linarith
qed

lemma randrange_Inr: "start < stop \<Longrightarrow> \<exists>p. randrange start stop r = Inr p"
  by (simp add: randrange_def)

text \<open>
  C8. Whatever the generator draws, the port number of an Ethernet port lies between
  1 and 47, that of a Wireless-802.11 port between 1 and 999 and that of a Virtual port
  between 1 and 9999: the upper ends 48, 1000 and 10000 are never produced.
\<close>

theorem generate_port_range:
  "(\<exists>p. generate_port ''Ethernet'' r = Inr p \<and> 1 \<le> p \<and> p \<le> 47)
   \<and> (\<exists>p. generate_port ''Wireless-802.11'' r = Inr p \<and> 1 \<le> p \<and> p \<le> 999)
   \<and> (\<exists>p. generate_port ''Virtual'' r = Inr p \<and> 1 \<le> p \<and> p \<le> 9999)"
proof -
  have e: "generate_port ''Ethernet'' r = randrange 1 48 r"
    and wl: "generate_port ''Wireless-802.11'' r = randrange 1 1000 r"
    and v: "generate_port ''Virtual'' r = randrange 1 10000 r"
    by (simp_all add: generate_port_def NAS_PORT_TYPES_def)
  obtain p1 where p1: "randrange 1 48 r = Inr p1"
    using randrange_Inr [of 1 48 r] by auto
  obtain p2 where p2: "randrange 1 1000 r = Inr p2"
    using randrange_Inr [of 1 1000 r] by auto
  obtain p3 where p3: "randrange 1 10000 r = Inr p3"
    using randrange_Inr [of 1 10000 r] by auto
  from randrange_bounds [OF p1] randrange_bounds [OF p2] randrange_bounds [OF p3]
  show ?thesis
    by (simp add: e wl v p1 p2 p3)
qed

text \<open>A 64-bit counter at its largest value wraps to the smallest on the next id.\<close>

lemma wrap_int64_example: "wrap_int64 (9223372036854775807 + 1) = - 9223372036854775808"
  by (simp add: wrap_int64_def)

text \<open>The timeouts the constructor lets through are those from 1 to 5.\<close>

lemma init_accepted_timeout:
  assumes "RADNAD_init name0 server0 secret0 auth_port0 acct_port0 coa_port0 options0 retries0
             timeout0 level0 csv = Inr nad"
  shows "1 \<le> timeout0 \<and> timeout0 \<le> 5 \<and> timeout nad = timeout0"
  using assms unfolding RADNAD_init_def Let_def TIMEOUT_MIN_def LOG_MAX_def
  by (auto split: if_splits option.splits list.splits sum.splits pyval.splits)

text \<open>
  C9. With the default configuration and a timeout of 6 seconds the constructor
  raises, with the message of the verbosity check.
\<close>

theorem init_timeout_6_rejected:
  "RADNAD_init NAS_IDENTIFIER_DEFAULT (Some ''1.2.3.4'') (Some ''C1sco12345'')
     AUTH_PORT_DEFAULT ACCT_PORT_DEFAULT COA_PORT_DEFAULT (Some OPTIONS_DEFAULT)
     RETRIES_DEFAULT 6 0 None
   = Inl (ValueError ''Invalid verbosity/log level: 0'')"
  by code_simp

text \<open>
  C10, as amended. Called with an authentication record whose response type is
  Access-Reject and whose request attributes are not empty, \<open>acct\<close> returns that
  record and leaves the device as it was: no command is run, the table is untouched.
\<close>

theorem acct_rejected_returns_auth:
  assumes "rsp_type a = ACCESS_REJECT" and "req_attrs a \<noteq> []"
  shows "acct w nad (Some a) state = (nad, Inr a)"
  using assms by (simp add: acct_def)

theorem acct_rejected_returns_auth_witness:
  "rsp_type (projr (RADIUSResponse_init 0 (Some transcript_reject))) = ACCESS_REJECT
   \<and> req_attrs (projr (RADIUSResponse_init 0 (Some transcript_reject))) \<noteq> []
   \<and> acct silent_world fresh_nad (Some (projr (RADIUSResponse_init 0 (Some transcript_reject)))) ACCT_START
       = (fresh_nad, Inr (projr (RADIUSResponse_init 0 (Some transcript_reject))))"
proof -
  let ?a = "projr (RADIUSResponse_init 0 (Some transcript_reject))"
  have h1: "rsp_type ?a = ACCESS_REJECT" by code_simp
  have h2: "req_attrs ?a \<noteq> []" by code_simp
  show ?thesis
    using h1 h2 acct_rejected_returns_auth [OF h1 h2, of silent_world fresh_nad ACCT_START] by simp
qed

text \<open>
  C10 as stated fails: for a rejected authentication whose request attributes are empty
  the guard on the request attributes comes first and \<open>acct\<close> raises.
\<close>

theorem acct_rejected_empty_counterexample:
  "\<not> isl (RADIUSResponse_init 0 (Some transcript_reject_bare))
   \<and> rsp_type (projr (RADIUSResponse_init 0 (Some transcript_reject_bare))) = ACCESS_REJECT
   \<and> acct silent_world fresh_nad (Some (projr (RADIUSResponse_init 0 (Some transcript_reject_bare)))) ACCT_START
       = (fresh_nad, Inl (ValueError ''auth.req_attrs is empty''))"
  by code_simp

text \<open>What one Stop does to the table and to the record of calls.\<close>

lemma acct_stop_by_attrs_sessions:
  assumes "acct_stop_by_attrs w nad (Some attrs) = (nad', res)"
  shows "set (sessions nad') \<subseteq> set (sessions nad)"
  using assms
  unfolding acct_stop_by_attrs_def run_shell_def parse_output_def Let_def
  by (auto simp: df_drop_def split: if_splits prod.splits sum.splits)

lemma acct_stop_by_attrs_calls:
  assumes "acct_stop_by_attrs w nad (Some attrs) = (nad', res)"
  shows "(calls nad' = calls nad \<and> isl res)
       \<or> (\<exists>a c. calls nad' = calls nad @ [(a, c)]
              \<and> md_get a ''Acct-Session-Id'' = md_get attrs ''Acct-Session-Id''
              \<and> (\<forall>r. res = Inr r \<longrightarrow> content r = fst (shell w (map snd (calls nad)) c)))"
  using assms
  unfolding acct_stop_by_attrs_def run_shell_def parse_output_def Let_def
  by (auto simp: md_get_def map_of_setitem_other dest: RADIUSResponse_init_content
           split: if_splits prod.splits sum.splits)


text \<open>
  The loop of the sweep: the table only shrinks, each call it adds carries the session
  id of one of the rows it was given, and the records it returns are, in order, the
  parsed outputs of those calls.
\<close>

lemma stop_loop_effect:
  "stop_loop w nad rows acc = (nad', res) \<Longrightarrow>
     set (sessions nad') \<subseteq> set (sessions nad)
   \<and> (\<exists>new. calls nad' = calls nad @ new
          \<and> (\<forall>call \<in> set new. \<exists>row \<in> set rows.
                 md_get (fst call) ''Acct-Session-Id'' = Some (Acct_Session_Id row))
          \<and> (\<forall>rs. res = Inr rs \<longrightarrow>
                 (\<exists>rs'. rs = acc @ rs' \<and> map content rs' = answers w (map snd (calls nad)) new)))"
proof (induction rows arbitrary: nad acc)
  case Nil
  then show ?case by auto
next
  case (Cons row rows)
  let ?attrs = "[(''Acct-Status-Type'', PStr ''Stop''),
                 (''Acct-Session-Id'', Acct_Session_Id row),
                 (''User-Name'', User_Name row),
                 (''Calling-Station-Id'', Calling_Station_Id row)]"
  have sid: "md_get ?attrs ''Acct-Session-Id'' = Some (Acct_Session_Id row)"
    by (simp add: md_get_def)
  obtain nad1 res1 where step: "acct_stop_by_attrs w nad (Some ?attrs) = (nad1, res1)"
    by (cases "acct_stop_by_attrs w nad (Some ?attrs)") auto
  note sub1 = acct_stop_by_attrs_sessions [OF step]
  note calls1 = acct_stop_by_attrs_calls [OF step, unfolded sid]
  show ?case
  proof (cases res1)
    case (Inl e)
    with Cons.prems step have eq: "nad' = nad1" "res = Inl e"
      by (simp_all add: Let_def)
    from calls1 show ?thesis
    proof
      assume "calls nad1 = calls nad \<and> isl res1"
      then show ?thesis using sub1 eq by auto
    next
      assume "\<exists>a c. calls nad1 = calls nad @ [(a, c)]
                \<and> md_get a ''Acct-Session-Id'' = Some (Acct_Session_Id row)
                \<and> (\<forall>r. res1 = Inr r \<longrightarrow> content r = fst (shell w (map snd (calls nad)) c))"
      then obtain a c where "calls nad1 = calls nad @ [(a, c)]"
        and "md_get a ''Acct-Session-Id'' = Some (Acct_Session_Id row)"
        by blast
      then show ?thesis using sub1 eq by auto
    qed
  next
    case (Inr response)
    with Cons.prems step have rest: "stop_loop w nad1 rows (acc @ [response]) = (nad', res)"
      by (simp add: Let_def)
    from calls1 Inr obtain a c where c1: "calls nad1 = calls nad @ [(a, c)]"
      and a: "md_get a ''Acct-Session-Id'' = Some (Acct_Session_Id row)"
      and out: "content response = fst (shell w (map snd (calls nad)) c)"
      by auto
    from Cons.IH [OF rest] obtain new where sub2: "set (sessions nad') \<subseteq> set (sessions nad1)"
      and c2: "calls nad' = calls nad1 @ new"
      and ids: "\<forall>call \<in> set new. \<exists>row \<in> set rows.
                  md_get (fst call) ''Acct-Session-Id'' = Some (Acct_Session_Id row)"
      and rs: "\<forall>rs. res = Inr rs \<longrightarrow>
                 (\<exists>rs'. rs = (acc @ [response]) @ rs'
                    \<and> map content rs' = answers w (map snd (calls nad1)) new)"
      by blast
    have "calls nad' = calls nad @ ((a, c) # new)"
      using c1 c2 by simp
    moreover have "\<forall>call \<in> set ((a, c) # new). \<exists>r \<in> set (row # rows).
                     md_get (fst call) ''Acct-Session-Id'' = Some (Acct_Session_Id r)"
      using a ids by auto
    moreover have "\<forall>rs. res = Inr rs \<longrightarrow>
                     (\<exists>rs'. rs = acc @ rs'
                        \<and> map content rs' = answers w (map snd (calls nad)) ((a, c) # new))"
    proof (intro allI impI)
      fix rs assume "res = Inr rs"
      with rs obtain rs' where "rs = (acc @ [response]) @ rs'"
        and "map content rs' = answers w (map snd (calls nad1)) new"
        by blast
      then have "rs = acc @ (response # rs')"
        and "map content (response # rs') = answers w (map snd (calls nad)) ((a, c) # new)"
        using out c1 by simp_all
      then show "\<exists>rs'. rs = acc @ rs'
                   \<and> map content rs' = answers w (map snd (calls nad)) ((a, c) # new)"
        by blast
    qed
    ultimately show ?thesis using sub1 sub2 by blast
  qed
qed


text \<open>
  C4. A session whose age at the first clock reading of the sweep exceeds four days is
  gone from the table after the sweep, whether the sweep ends normally or raises. None
  of the commands the sweep hands to the external client carries its Acct-Session-Id,
  and the records the sweep returns are exactly the parsed outputs of those commands,
  so none of them stands for that session.
\<close>

theorem four_day_drop:
  assumes "s \<in> set (sessions nad)"
    and "clock w (ticks nad) - Timestamp s > four_days"
    and "stop_expired_sessions w nad = (nad', res)"
  shows "s \<notin> set (sessions nad')
       \<and> (\<exists>new. calls nad' = calls nad @ new
              \<and> (\<forall>call \<in> set new. md_get (fst call) ''Acct-Session-Id'' \<noteq> Some (Acct_Session_Id s))
              \<and> (\<forall>rs. res = Inr rs \<longrightarrow> map content rs = answers w (map snd (calls nad)) new))"
proof -
  define expired where
    "expired = filter (\<lambda>row. Timestamp row < clock w (ticks nad) - four_days) (sessions nad)"
  define kept where
    "kept = df_drop (map Timestamp
                      (filter (\<lambda>row. Acct_Session_Id row \<in> set (map Acct_Session_Id expired))
                              (sessions nad)))
                    (sessions nad)"
  have s_expired: "s \<in> set expired"
    using assms(1,2) by (simp add: expired_def)
  then have nonempty: "length expired > 0"
    by (cases expired) auto
  have kept_ids: "Acct_Session_Id row \<noteq> Acct_Session_Id s" if "row \<in> set kept" for row
  proof
    assume same: "Acct_Session_Id row = Acct_Session_Id s"
    from that have "row \<in> set (sessions nad)"
      by (simp add: kept_def df_drop_def)
    with same s_expired have "Timestamp row \<in> set (map Timestamp
        (filter (\<lambda>row. Acct_Session_Id row \<in> set (map Acct_Session_Id expired)) (sessions nad)))"
      by force
    with that show False
      by (simp add: kept_def df_drop_def)
  qed
  then have s_gone: "s \<notin> set kept"
    by blast
  define n2 where "n2 = nad\<lparr> ticks := ticks nad + 1, sessions := kept \<rparr>"
  define n3 where "n3 = nad\<lparr> sessions := kept, ticks := ticks nad + 2 \<rparr>"
  define rows where
    "rows = filter (\<lambda>row. exceeds (timedelta_seconds (clock w (ticks nad + 1) - Timestamp row))
                                   (Session_Timeout row)) kept"
  have unfolded: "stop_expired_sessions w nad =
      (if length kept \<le> 0 then (n2, Inr [])
       else if list_ex (\<lambda>row. is_PStr (Session_Timeout row)) kept then (n3, Inl TypeError)
       else if length rows > 0 then stop_loop w n3 rows [] else (n3, Inr []))"
    using nonempty
    unfolding stop_expired_sessions_def Let_def n2_def n3_def rows_def kept_def expired_def
    by simp
  have n3: "sessions n3 = kept" "calls n3 = calls nad" "sessions n2 = kept" "calls n2 = calls nad"
    by (simp_all add: n2_def n3_def)
  have "set rows \<subseteq> set kept"
    by (auto simp: rows_def)
  with assms(3) unfolded
  have cases: "((nad' = n3 \<or> nad' = n2) \<and> (res = Inr [] \<or> res = Inl TypeError))
              \<or> (\<exists>rows. set rows \<subseteq> set kept \<and> stop_loop w n3 rows [] = (nad', res))"
    by (auto split: if_splits)
  from cases show ?thesis
  proof
    assume "(nad' = n3 \<or> nad' = n2) \<and> (res = Inr [] \<or> res = Inl TypeError)"
    then show ?thesis using n3 s_gone by auto
  next
    assume "\<exists>rows. set rows \<subseteq> set kept \<and> stop_loop w n3 rows [] = (nad', res)"
    then obtain rows where rows: "set rows \<subseteq> set kept"
      and loop: "stop_loop w n3 rows [] = (nad', res)"
      by blast
    from stop_loop_effect [OF loop] obtain new
      where sub: "set (sessions nad') \<subseteq> set (sessions n3)"
        and c: "calls nad' = calls n3 @ new"
        and ids: "\<forall>call \<in> set new. \<exists>row \<in> set rows.
                    md_get (fst call) ''Acct-Session-Id'' = Some (Acct_Session_Id row)"
        and rs: "\<forall>rs. res = Inr rs \<longrightarrow>
                   (\<exists>rs'. rs = [] @ rs' \<and> map content rs' = answers w (map snd (calls n3)) new)"
      by blast
    have "s \<notin> set (sessions nad')"
      using sub n3 s_gone by auto
    moreover have "calls nad' = calls nad @ new"
      using c n3 by simp
    moreover have "\<forall>call \<in> set new. md_get (fst call) ''Acct-Session-Id'' \<noteq> Some (Acct_Session_Id s)"
      using ids rows kept_ids by fastforce
    moreover have "\<forall>rs. res = Inr rs \<longrightarrow> map content rs = answers w (map snd (calls nad)) new"
      using rs n3 by auto
    ultimately show ?thesis by blast
  qed
qed


theorem four_day_drop_witness:
  "sample_row 1700000000000000 (PInt 7) (PInt 3600) \<in> set (sessions sweep_nad)
   \<and> clock sweep_world (ticks sweep_nad) - Timestamp (sample_row 1700000000000000 (PInt 7) (PInt 3600))
       > four_days
   \<and> sample_row 1700000000000000 (PInt 7) (PInt 3600)
       \<notin> set (sessions (fst (stop_expired_sessions sweep_world sweep_nad)))
   \<and> (\<exists>new. calls (fst (stop_expired_sessions sweep_world sweep_nad)) = calls sweep_nad @ new
          \<and> (\<forall>call \<in> set new. md_get (fst call) ''Acct-Session-Id'' \<noteq> Some (PInt 7))
          \<and> (\<forall>rs. snd (stop_expired_sessions sweep_world sweep_nad) = Inr rs \<longrightarrow>
                 map content rs = answers sweep_world (map snd (calls sweep_nad)) new))"
proof -
  let ?s = "sample_row 1700000000000000 (PInt 7) (PInt 3600)"
  have h1: "?s \<in> set (sessions sweep_nad)"
    by (simp add: sweep_nad_def)
  have h2: "clock sweep_world (ticks sweep_nad) - Timestamp ?s > four_days"
    by (simp add: sweep_world_def sample_row_def four_days_def)
  have h3: "stop_expired_sessions sweep_world sweep_nad
            = (fst (stop_expired_sessions sweep_world sweep_nad),
               snd (stop_expired_sessions sweep_world sweep_nad))"
    by simp
  have sid: "Acct_Session_Id ?s = PInt 7"
    by (simp add: sample_row_def)
  show ?thesis
    using h1 h2 four_day_drop [OF h1 h2 h3] unfolding sid by blast
qed

text \<open>
  The sweep of \<open>sweep_nad\<close> in full: one Stop, for session 8, accepted; both rows gone.
\<close>

lemma sweep_example:
  "(let (nad', res) = stop_expired_sessions sweep_world sweep_nad
    in (sessions nad', map (\<lambda>call. md_get (fst call) ''Acct-Session-Id'') (calls nad'),
        map_sum id (map is_accepted) res))
   = ([], [Some (PInt 8)], Inr [True])"
  by code_simp

text \<open>
  C3. The session of \<open>day_nad\<close> has a time-out of 60 seconds and an age of 86430
  seconds at the sweep, less than four days. The sweep does not stop it: no command is
  issued, no record is returned and the session stays in the table.
\<close>

theorem sweep_misses_day_old:
  "clock day_world 1 - Timestamp (sample_row 1700000000000000 (PInt 7) (PInt 60)) = 86430 * 1000000
   \<and> 86430 * 1000000 < four_days
   \<and> Session_Timeout (sample_row 1700000000000000 (PInt 7) (PInt 60)) = PInt 60
   \<and> stop_expired_sessions day_world day_nad = (day_nad\<lparr> ticks := 2 \<rparr>, Inr [])"
  by code_simp

text \<open>
  C1. On \<open>roundtrip_nad\<close>, whose table holds session 1, the session of \<open>bob\<close> is
  authenticated, its accounting Start is accepted and its row is added with the same
  index as session 1. The Stop that carries its Acct-Session-Id, User-Name and
  Calling-Station-Id is accepted and leaves the table empty: two rows removed, not one.
\<close>

theorem stop_removes_two_sessions:
  "(let (nad1, r1) = session roundtrip_world roundtrip_nad (Some bob_attrs);
        (nad2, r2) = acct_stop_by_attrs roundtrip_world nad1 (Some bob_stop_attrs)
    in (map_sum id is_accepted r1, map_sum id is_accepted r2,
        map (\<lambda>row. (Timestamp row, Acct_Session_Id row)) (sessions roundtrip_nad),
        map (\<lambda>row. (Timestamp row, Acct_Session_Id row)) (sessions nad1),
        map (\<lambda>row. (Timestamp row, Acct_Session_Id row)) (sessions nad2)))
   = (Inr True, Inr True,
      [(1700000000000000, PStr ''1'')],
      [(1700000000000000, PStr ''1''), (1700000000000000, PStr ''2'')],
      [])"
  by code_simp

end
